theory Spec2Isabelle
  imports Main "HOL-Library.AList"
begin

section \<open>Reminder documents\<close>

text \<open>
  The Mongoose schema of a reminder (models/Reminder.js): \<open>notificationType\<close> is one of
  "email" and "sms", \<open>status\<close> one of "pending", "sent" and "failed" (default "pending").
  \<open>rid\<close> is \<open>_id.toString()\<close> and \<open>noteText\<close> the field \<open>note\<close>; \<open>dateTime\<close> is the time
  value in milliseconds of \<open>new Date(reminder.dateTime)\<close>, \<open>None\<close> when that is NaN (an
  Invalid Date);
  \<open>sentAt\<close> and \<open>error\<close> are \<open>None\<close> while undefined. The owner (\<open>userId\<close>) and the
  schema's timestamps are not read by the notification service and are left out.
\<close>

datatype notificationType = Email | Sms

datatype status = Pending | Sent | Failed

record reminder =
  rid :: string
  title :: string
  noteText :: string
  dateTime :: "int option"
  notificationType :: notificationType
  contactInfo :: string
  status :: status
  sentAt :: "int option"
  error :: "string option"

section \<open>The world of the notification service\<close>

text \<open>
  \<open>mailOptions\<close> of \<open>sendEmailNotification\<close>: the recipient, the subject and the three
  arguments the HTML template is rendered from (the sender, fixed by the configuration,
  is left out).
\<close>

record mail =
  mailTo :: string
  subject :: string
  html :: "string \<times> string \<times> int option"

text \<open>
  The effects the service has on the outside, in the order they happen: a call of
  \<open>emailTransporter.sendMail\<close>, a \<open>sleep(ms)\<close>, a call of \<open>reminder.save()\<close> with the
  document as it is then.
\<close>

datatype event = SendMail mail | Sleep nat | Save reminder

text \<open>
  A job of node-schedule that has not fired yet: its identity (the Job object), and
  what the callback's closure holds of the reminder it was made for, the id and the date.
\<close>

record job =
  job_id :: nat
  job_rid :: string
  job_date :: int

text \<open>
  Where a timer callback that has started stands: each constructor is one of the
  \<open>await\<close>s of the callback and of the functions it calls, with what the callback holds
  there. \<open>AwaitFind\<close> is \<open>await Reminder.findById(...)\<close>; \<open>AwaitSend d k\<close> is
  \<open>await this.emailTransporter.sendMail(mailOptions)\<close> of attempt \<open>k\<close>, for the document
  \<open>d\<close> as fetched; \<open>AwaitSleep d k\<close> is \<open>await sleep(backoff)\<close> after attempt \<open>k\<close> failed;
  \<open>AwaitSave d\<close> is \<open>await reminder.save()\<close>, \<open>d\<close> being the document with the new status
  written into it.
\<close>

datatype phase =
    AwaitFind
  | AwaitSend reminder nat
  | AwaitSleep reminder nat
  | AwaitSave reminder

text \<open>
  \<open>emailTransporter\<close> is \<open>None\<close> for the source's \<open>null\<close>, otherwise the user and password
  the transport was created with. \<open>scheduledJobs\<close> is the \<open>Map\<close> from reminder id to Job,
  in insertion order. \<open>timers\<close> are the jobs node-schedule holds that have neither fired
  nor been cancelled, \<open>nextJob\<close> the identity the next Job object gets. \<open>store\<close> is the
  Reminder collection, \<open>effects\<close> the events so far. \<open>running\<close> are the callbacks that
  have started and not ended, each with the job that fired and the \<open>await\<close> it stands at.
\<close>

record system =
  emailTransporter :: "(nat list \<times> nat list) option"
  scheduledJobs :: "(string \<times> nat) list"
  timers :: "job list"
  nextJob :: nat
  store :: "reminder list"
  effects :: "event list"
  running :: "(job \<times> phase) list"

text \<open>What a call that may throw gives back: a value, or the message of what it threw.\<close>

datatype 'a outcome = Returned 'a | Threw string

text \<open>The result object of a send: \<open>{success: true}\<close> or \<open>{success: false, error}\<close>.\<close>

datatype result = Success | Failure string

section \<open>The constructor\<close>

text \<open>
  \<open>process.env\<close> values are JavaScript strings, modelled as lists of UTF-16 code units, an
  unset variable as \<open>None\<close>. \<open>is_space\<close> is the regular expression class \<open>\s\<close>: the
  white space and line terminator code points of ECMAScript.
\<close>

definition is_space :: "nat \<Rightarrow> bool" where
  "is_space c \<longleftrightarrow>
     c \<in> {0x09, 0x0A, 0x0B, 0x0C, 0x0D, 0x20, 0xA0, 0x1680, 0x2028, 0x2029, 0x202F,
          0x205F, 0x3000, 0xFEFF} \<or> (0x2000 \<le> c \<and> c \<le> 0x200A)"

text \<open>
  \<open>rawEmailPass.replace(/\s+/g, "").trim()\<close>: once every white space character is gone,
  \<open>trim\<close> has nothing left to remove.
\<close>

definition strip_spaces :: "nat list \<Rightarrow> nat list" where
  "strip_spaces p = filter (\<lambda>c. \<not> is_space c) p"

text \<open>
  The service as the constructor leaves it, beside a Reminder collection \<open>st\<close>: an empty
  table, and no transporter when the user is unset or empty or the password is empty
  after stripping (\<open>!emailUser || !emailPass\<close>).
\<close>

definition NotificationService ::
    "nat list option \<Rightarrow> nat list option \<Rightarrow> reminder list \<Rightarrow> system" where
  "NotificationService emailUser envEmailPassword st =
     (let rawEmailPass = (case envEmailPassword of None \<Rightarrow> [] | Some p \<Rightarrow> p);
          emailPass = strip_spaces rawEmailPass
      in \<lparr> emailTransporter =
             (case emailUser of
                None \<Rightarrow> None
              | Some u \<Rightarrow> if u = [] \<or> emailPass = [] then None else Some (u, emailPass)),
           scheduledJobs = [],
           timers = [],
           nextJob = 0,
           store = st,
           effects = [],
           running = [] \<rparr>)"

section \<open>Sending with retries\<close>

definition maxAttempts :: nat where
  "maxAttempts = 3"

text \<open>
  The \<open>while\<close> loop of \<open>sendEmailNotification\<close>. \<open>sendMail k\<close> is what the \<open>k\<close>-th call of
  \<open>emailTransporter.sendMail\<close> does: \<open>None\<close> when it resolves, \<open>Some msg\<close> when it rejects,
  \<open>msg\<close> being the message the \<open>catch\<close> block computes from the error. The result is
  \<open>None\<close> where the source falls out of the loop and returns \<open>undefined\<close>.
\<close>

function send_loop ::
    "(nat \<Rightarrow> string option) \<Rightarrow> mail \<Rightarrow> nat \<Rightarrow> event list \<Rightarrow> result option \<times> event list" where
  "send_loop sendMail mailOptions attempt evs =
     (if attempt < maxAttempts then
        (case sendMail (attempt + 1) of
           None \<Rightarrow> (Some Success, evs @ [SendMail mailOptions])
         | Some msg \<Rightarrow>
             if attempt + 1 < maxAttempts
             then send_loop sendMail mailOptions (attempt + 1)
                    (evs @ [SendMail mailOptions, Sleep ((attempt + 1) * 700)])
             else (Some (Failure msg), evs @ [SendMail mailOptions]))
      else (None, evs))"
  by pat_completeness auto
termination
  by (relation "measure (\<lambda>(sendMail, mailOptions, attempt, evs). maxAttempts - attempt)") auto

declare send_loop.simps [simp del]

definition sendEmailNotification ::
    "(nat \<Rightarrow> string option) \<Rightarrow> string \<Rightarrow> string \<Rightarrow> string \<Rightarrow> int option \<Rightarrow> system
       \<Rightarrow> result option \<times> system" where
  "sendEmailNotification sendMail email ttl nt dt s =
     (case emailTransporter s of
        None \<Rightarrow> (Some (Failure ''Transporter not configured''), s)
      | Some tr \<Rightarrow>
          (let mailOptions =
                 \<lparr> mailTo = email, subject = ''Reminder: '' @ ttl, html = (ttl, nt, dt) \<rparr>;
               (res, evs) = send_loop sendMail mailOptions 0 (effects s)
           in (res, s\<lparr>effects := evs\<rparr>)))"

section \<open>Processing a reminder\<close>

text \<open>
  What a dispatch meets outside the service: the clock when \<open>sentAt\<close> is set, whether
  \<open>Reminder.findById\<close> and \<open>reminder.save()\<close> reject (with which message), and what each
  \<open>sendMail\<close> call does.
\<close>

record dispatch_env =
  clock :: int
  findById_error :: "string option"
  sendMail_answer :: "nat \<Rightarrow> string option"
  save_error :: "string option"

text \<open>\<open>Reminder.findById\<close>: the document with that id, if the collection has one.\<close>

definition findById :: "string \<Rightarrow> reminder list \<Rightarrow> reminder option" where
  "findById i st = List.find (\<lambda>d. rid d = i) st"

text \<open>The update \<open>save()\<close> makes for a loaded document: the document of that id is replaced.\<close>

fun replace_doc :: "reminder \<Rightarrow> reminder list \<Rightarrow> reminder list" where
  "replace_doc d [] = []"
| "replace_doc d (x # xs) = (if rid x = rid d then d # xs else x # replace_doc d xs)"

text \<open>
  \<open>reminder.save()\<close>: rejects when the environment says so, or when the collection no
  longer has the document; otherwise writes it.
\<close>

definition save :: "dispatch_env \<Rightarrow> reminder \<Rightarrow> system \<Rightarrow> unit outcome \<times> system" where
  "save env d s =
     (let s1 = s\<lparr>effects := effects s @ [Save d]\<rparr>
      in case save_error env of
           Some msg \<Rightarrow> (Threw msg, s1)
         | None \<Rightarrow>
             (case findById (rid d) (store s1) of
                None \<Rightarrow> (Threw ''No document found'', s1)
              | Some old \<Rightarrow> (Returned (), s1\<lparr>store := replace_doc d (store s1)\<rparr>)))"

text \<open>\<open>result?.error || "Unknown error"\<close>.\<close>

definition error_of :: "result option \<Rightarrow> string" where
  "error_of res =
     (case res of
        Some (Failure msg) \<Rightarrow> if msg = [] then ''Unknown error'' else msg
      | _ \<Rightarrow> ''Unknown error'')"

text \<open>The document as \<open>_processReminder\<close> has changed it when it calls \<open>save()\<close>.\<close>

definition settle :: "int \<Rightarrow> result option \<Rightarrow> reminder \<Rightarrow> reminder" where
  "settle now res r =
     (if res = Some Success
      then r\<lparr>status := Sent, sentAt := Some now, error := None\<rparr>
      else r\<lparr>status := Failed, error := Some (error_of res)\<rparr>)"

text \<open>
  The first half of \<open>_processReminder\<close>: \<open>result\<close> by the notification type. An SMS is
  not sent; its result is a failure made on the spot.
\<close>

definition deliver :: "dispatch_env \<Rightarrow> reminder \<Rightarrow> system \<Rightarrow> result option \<times> system" where
  "deliver env r s =
     (case notificationType r of
        Email \<Rightarrow>
          sendEmailNotification (sendMail_answer env) (contactInfo r) (title r)
            (noteText r) (dateTime r) s
      | Sms \<Rightarrow> (Some (Failure ''SMS not implemented''), s))"

text \<open>
  \<open>_processReminder\<close>: the result is written into the document and the document saved;
  what \<open>save()\<close> throws is caught and logged.
\<close>

definition processReminder :: "dispatch_env \<Rightarrow> reminder \<Rightarrow> system \<Rightarrow> unit outcome \<times> system" where
  "processReminder env r s =
     (let (res, s1) = deliver env r s;
          (saved, s2) = save env (settle (clock env) res r) s1
      in case saved of
           Returned u \<Rightarrow> (Returned (), s2)
         | Threw msg \<Rightarrow> (Returned (), s2))"

section \<open>The scheduler table\<close>

text \<open>\<open>job.cancel()\<close>: node-schedule drops the job's pending invocation.\<close>

definition cancel_job :: "nat \<Rightarrow> job list \<Rightarrow> job list" where
  "cancel_job h js = filter (\<lambda>j. job_id j \<noteq> h) js"

text \<open>
  What \<open>schedule.scheduleJob\<close> of node-schedule does with the date and the callback: it
  gives a Job back, or \<open>null\<close>, or throws.
\<close>

datatype scheduleJob_answer = JobCreated | JobNull | JobThrew string

text \<open>
  What \<open>scheduleReminder\<close> meets outside: the clock (\<open>new Date()\<close>), and the answer of
  \<open>schedule.scheduleJob\<close>.
\<close>

record schedule_env =
  now :: int
  scheduleJob_answer :: scheduleJob_answer

text \<open>
  The \<open>try\<close> block of \<open>scheduleReminder\<close>: the job already in the table for this id is
  cancelled and deleted first; then an invalid date, a date that is not after the clock,
  and a \<open>null\<close> job each return \<open>false\<close>; otherwise the new job is stored and \<open>true\<close>
  returned.
\<close>

definition schedule_body :: "schedule_env \<Rightarrow> reminder \<Rightarrow> system \<Rightarrow> bool outcome \<times> system" where
  "schedule_body env r s =
     (let reminderIdStr = rid r;
          s1 = (case map_of (scheduledJobs s) reminderIdStr of
                  Some existing \<Rightarrow>
                    s\<lparr>timers := cancel_job existing (timers s),
                      scheduledJobs := AList.delete reminderIdStr (scheduledJobs s)\<rparr>
                | None \<Rightarrow> s)
      in case dateTime r of
           None \<Rightarrow> (Returned False, s1)
         | Some reminderDate \<Rightarrow>
             if reminderDate \<le> now env then (Returned False, s1)
             else (case scheduleJob_answer env of
                     JobThrew msg \<Rightarrow> (Threw msg, s1)
                   | JobNull \<Rightarrow> (Returned False, s1)
                   | JobCreated \<Rightarrow>
                       (Returned True,
                        s1\<lparr>timers := timers s1 @
                              [\<lparr> job_id = nextJob s1, job_rid = reminderIdStr,
                                 job_date = reminderDate \<rparr>],
                           nextJob := Suc (nextJob s1),
                           scheduledJobs :=
                             AList.update reminderIdStr (nextJob s1) (scheduledJobs s1)\<rparr>)))"

text \<open>
  \<open>scheduleReminder\<close>: the \<open>catch\<close> block logs whatever the \<open>try\<close> block threw and
  returns \<open>false\<close>.
\<close>

definition scheduleReminder :: "schedule_env \<Rightarrow> reminder \<Rightarrow> system \<Rightarrow> bool outcome \<times> system" where
  "scheduleReminder env r s =
     (case schedule_body env r s of
        (Returned b, s') \<Rightarrow> (Returned b, s')
      | (Threw msg, s') \<Rightarrow> (Returned False, s'))"

definition cancelScheduledReminder :: "string \<Rightarrow> system \<Rightarrow> bool \<times> system" where
  "cancelScheduledReminder reminderIdStr s =
     (case map_of (scheduledJobs s) reminderIdStr of
        Some j \<Rightarrow>
          (True, s\<lparr>timers := cancel_job j (timers s),
                   scheduledJobs := AList.delete reminderIdStr (scheduledJobs s)\<rparr>)
      | None \<Rightarrow> (False, s))"

definition cancelAllScheduled :: "system \<Rightarrow> system" where
  "cancelAllScheduled s =
     s\<lparr>timers := foldl (\<lambda>js (i, j). cancel_job j js) (timers s) (scheduledJobs s),
       scheduledJobs := []\<rparr>"

section \<open>The timer callback\<close>

text \<open>
  The body of the callback's \<open>try\<close> block: the document is fetched again by id and
  processed only when it is there and still pending.
\<close>

definition callback_body :: "dispatch_env \<Rightarrow> string \<Rightarrow> system \<Rightarrow> unit outcome \<times> system" where
  "callback_body env i s =
     (case findById_error env of
        Some msg \<Rightarrow> (Threw msg, s)
      | None \<Rightarrow>
          (case findById i (store s) of
             None \<Rightarrow> (Returned (), s)
           | Some existingReminder \<Rightarrow>
               if status existingReminder = Pending
               then processReminder env existingReminder s
               else (Returned (), s)))"

text \<open>
  The callback node-schedule runs when job \<open>j\<close> fires, as one function from the firing
  to the end of \<open>finally\<close>: what the callback does when nothing else runs at its
  \<open>await\<close>s. A one-shot job is spent by firing. \<open>catch\<close> logs what the body threw;
  \<open>finally\<close> deletes the table entry of the reminder's id.
\<close>

definition timer_callback :: "dispatch_env \<Rightarrow> job \<Rightarrow> system \<Rightarrow> unit outcome \<times> system" where
  "timer_callback env j s =
     (let s0 = s\<lparr>timers := cancel_job (job_id j) (timers s)\<rparr>;
          (tried, s1) = callback_body env (job_rid j) s0;
          caught = (case tried of Returned u \<Rightarrow> Returned () | Threw msg \<Rightarrow> Returned ());
          s2 = s1\<lparr>scheduledJobs := AList.delete (job_rid j) (scheduledJobs s1)\<rparr>
      in (caught, s2))"

section \<open>Recovery\<close>

text \<open>
  The query \<open>Reminder.find({status: "pending", dateTime: {$gt: now}})\<close>: a document with
  no valid date matches no comparison.
\<close>

definition find_pending :: "int \<Rightarrow> reminder list \<Rightarrow> reminder list" where
  "find_pending t st =
     filter (\<lambda>d. status d = Pending \<and> (case dateTime d of None \<Rightarrow> False | Some dt \<Rightarrow> t < dt)) st"

text \<open>
  The \<open>for\<close> loop over the documents found; \<open>envs k\<close> is what the \<open>k\<close>-th call of
  \<open>scheduleReminder\<close> meets (the clock has moved on since the query).
\<close>

fun schedule_each :: "(nat \<Rightarrow> schedule_env) \<Rightarrow> nat \<Rightarrow> reminder list \<Rightarrow> system \<Rightarrow> system" where
  "schedule_each envs k [] s = s"
| "schedule_each envs k (r # rs) s =
     schedule_each envs (Suc k) rs (snd (scheduleReminder (envs k) r s))"

text \<open>
  \<open>restorePendingReminders\<close>: \<open>t\<close> is the clock at the query, \<open>find_error\<close> the message
  when the query rejects (the \<open>catch\<close> block logs it and nothing is scheduled).
\<close>

definition restorePendingReminders ::
    "int \<Rightarrow> string option \<Rightarrow> (nat \<Rightarrow> schedule_env) \<Rightarrow> system \<Rightarrow> system" where
  "restorePendingReminders t find_error envs s =
     (case find_error of
        Some msg \<Rightarrow> s
      | None \<Rightarrow> schedule_each envs 0 (find_pending t (store s)) s)"

section \<open>The timer callback, await by await\<close>

text \<open>
  The callback is an \<open>async\<close> function: at each \<open>await\<close> it gives the event loop back,
  and calls of the service and other callbacks run before it goes on. The functions
  below are the pieces of the callback between two \<open>await\<close>s of something outside the
  process: \<open>findById\<close>, \<open>sendMail\<close>, the sleep between two attempts, and \<open>save()\<close>. An
  \<open>await\<close> of a value that is already there (the result of \<open>sendEmailNotification\<close>
  without a transporter, or of \<open>_processReminder\<close> once it has ended) is not a point
  where a call of the service or an answer from outside comes in between.
\<close>

text \<open>\<open>mailOptions\<close> as \<open>_processReminder\<close> has \<open>sendEmailNotification\<close> build them.\<close>

definition mail_of :: "reminder \<Rightarrow> mail" where
  "mail_of d =
     \<lparr> mailTo = contactInfo d, subject = ''Reminder: '' @ title d,
       html = (title d, noteText d, dateTime d) \<rparr>"

text \<open>
  With \<open>result\<close> known, \<open>_processReminder\<close> writes it into the document (at clock \<open>t\<close>) and
  calls \<open>save()\<close>; the callback then waits for the save.
\<close>

definition begin_save :: "int \<Rightarrow> result option \<Rightarrow> reminder \<Rightarrow> system \<Rightarrow> phase option \<times> system" where
  "begin_save t res d s =
     (let d' = settle t res d
      in (Some (AwaitSave d'), s\<lparr>effects := effects s @ [Save d']\<rparr>))"

text \<open>
  The head of the \<open>while\<close> loop with \<open>attempt\<close> attempts made: the next \<open>sendMail\<close> is
  called, or the loop is left with no result.
\<close>

definition begin_attempt :: "dispatch_env \<Rightarrow> reminder \<Rightarrow> nat \<Rightarrow> system \<Rightarrow> phase option \<times> system" where
  "begin_attempt env d attempt s =
     (if attempt < maxAttempts
      then (Some (AwaitSend d (attempt + 1)), s\<lparr>effects := effects s @ [SendMail (mail_of d)]\<rparr>)
      else begin_save (clock env) None d s)"

text \<open>
  The callback for reminder id \<open>i\<close> goes on from the \<open>await\<close> it stands at, with what the
  awaited call answers in \<open>env\<close>, up to its next \<open>await\<close> (\<open>Some\<close> of it) or to the end of
  its \<open>try\<close> block (\<open>None\<close>). \<open>findById\<close> reads the collection and \<open>save()\<close> writes it when
  the callback goes on from them.
\<close>

fun resume :: "dispatch_env \<Rightarrow> string \<Rightarrow> phase \<Rightarrow> system \<Rightarrow> phase option \<times> system" where
  "resume env i AwaitFind s =
     (case findById_error env of
        Some msg \<Rightarrow> (None, s)
      | None \<Rightarrow>
          (case findById i (store s) of
             None \<Rightarrow> (None, s)
           | Some existingReminder \<Rightarrow>
               if status existingReminder = Pending
               then (case notificationType existingReminder of
                       Email \<Rightarrow>
                         (case emailTransporter s of
                            None \<Rightarrow>
                              begin_save (clock env) (Some (Failure ''Transporter not configured''))
                                existingReminder s
                          | Some tr \<Rightarrow> begin_attempt env existingReminder 0 s)
                     | Sms \<Rightarrow>
                         begin_save (clock env) (Some (Failure ''SMS not implemented''))
                           existingReminder s)
               else (None, s)))"
| "resume env i (AwaitSend d attempt) s =
     (case sendMail_answer env attempt of
        None \<Rightarrow> begin_save (clock env) (Some Success) d s
      | Some msg \<Rightarrow>
          if attempt < maxAttempts
          then (Some (AwaitSleep d attempt), s\<lparr>effects := effects s @ [Sleep (attempt * 700)]\<rparr>)
          else begin_save (clock env) (Some (Failure msg)) d s)"
| "resume env i (AwaitSleep d attempt) s = begin_attempt env d attempt s"
| "resume env i (AwaitSave d) s =
     (case save_error env of
        Some msg \<Rightarrow> (None, s)
      | None \<Rightarrow>
          (case findById (rid d) (store s) of
             None \<Rightarrow> (None, s)
           | Some old \<Rightarrow> (None, s\<lparr>store := replace_doc d (store s)\<rparr>)))"

text \<open>Job \<open>j\<close> fires: node-schedule drops it and starts its callback, which awaits \<open>findById\<close>.\<close>

definition fire :: "job \<Rightarrow> system \<Rightarrow> system" where
  "fire j s =
     s\<lparr>timers := cancel_job (job_id j) (timers s), running := running s @ [(j, AwaitFind)]\<rparr>"

text \<open>
  The callback of job \<open>j\<close>, standing at \<open>ph\<close>, goes on: to its next \<open>await\<close>, or to its end,
  where \<open>finally\<close> deletes the table entry of the reminder's id, whatever job the table
  holds for it by then.
\<close>

definition resume_task :: "dispatch_env \<Rightarrow> job \<Rightarrow> phase \<Rightarrow> system \<Rightarrow> system" where
  "resume_task env j ph s =
     (case resume env (job_rid j) ph s of
        (Some ph', s') \<Rightarrow>
          s'\<lparr>running := map (\<lambda>c. if c = (j, ph) then (j, ph') else c) (running s')\<rparr>
      | (None, s') \<Rightarrow>
          s'\<lparr>scheduledJobs := AList.delete (job_rid j) (scheduledJobs s'),
             running := filter (\<lambda>c. c \<noteq> (j, ph)) (running s')\<rparr>)"


section \<open>Runs of the service\<close>

text \<open>
  What happens to the process, one event of the event loop at a time: a call of one of
  the service's methods, a job firing, a started callback going on from its \<open>await\<close>,
  and the routes creating a document or deleting the documents of an id.
\<close>

datatype action =
    Schedule schedule_env reminder
  | Cancel string
  | CancelAll
  | Restore int "string option" "nat \<Rightarrow> schedule_env"
  | Fire job
  | Resume dispatch_env job phase
  | Create reminder
  | Delete string

fun act :: "action \<Rightarrow> system \<Rightarrow> system" where
  "act (Schedule env r) s = snd (scheduleReminder env r s)"
| "act (Cancel i) s = snd (cancelScheduledReminder i s)"
| "act CancelAll s = cancelAllScheduled s"
| "act (Restore t find_error envs) s = restorePendingReminders t find_error envs s"
| "act (Fire j) s = fire j s"
| "act (Resume env j ph) s = resume_task env j ph s"
| "act (Create d) s = s\<lparr>store := store s @ [d]\<rparr>"
| "act (Delete i) s = s\<lparr>store := filter (\<lambda>d. rid d \<noteq> i) (store s)\<rparr>"

text \<open>The ids of the reminders whose callbacks have started and not ended.\<close>

definition in_flight :: "system \<Rightarrow> string list" where
  "in_flight s = map (\<lambda>c. job_rid (fst c)) (running s)"

text \<open>
  When an event can happen: only a job node-schedule still holds fires, only a started
  callback goes on, and a created document is pending with an id (a new ObjectId) that
  no document and no job has.
\<close>

fun enabled :: "action \<Rightarrow> system \<Rightarrow> bool" where
  "enabled (Fire j) s = (j \<in> set (timers s))"
| "enabled (Resume env j ph) s = ((j, ph) \<in> set (running s))"
| "enabled (Create d) s =
     (status d = Pending \<and> sentAt d = None \<and> error d = None \<and>
      rid d \<notin> rid ` set (store s) \<and> rid d \<notin> job_rid ` set (timers s) \<and>
      rid d \<notin> set (in_flight s))"
| "enabled a s = True"



text \<open>The states a process can be in: the constructor's, then any events.\<close>

inductive reachable :: "system \<Rightarrow> bool" where
  reach_init: "reachable (NotificationService emailUser envEmailPassword st)"
| reach_step: "reachable s \<Longrightarrow> enabled a s \<Longrightarrow> reachable (act a s)"




text \<open>
  The table and node-schedule agree: no id and no job occurs twice, every job still to
  fire is the table's entry for its reminder, and every entry of the table is a job
  still to fire.
\<close>

definition table_inv :: "system \<Rightarrow> bool" where
  "table_inv s \<longleftrightarrow>
     distinct (map fst (scheduledJobs s)) \<and>
     distinct (map job_id (timers s)) \<and>
     (\<forall>j \<in> set (timers s).
        job_id j < nextJob s \<and> map_of (scheduledJobs s) (job_rid j) = Some (job_id j)) \<and>
     (\<forall>e \<in> set (scheduledJobs s).
        \<exists>j \<in> set (timers s). job_rid j = fst e \<and> job_id j = snd e)"

section \<open>Status transitions\<close>


section \<open>What holds along a run\<close>






section \<open>Sample data\<close>

text \<open>
  A collection of three reminders, as in the recovery scenario: A pending and due at
  5000, B pending and due at 500, C already sent and due at 7000; a service started with
  credentials beside it; and the environments of the calls made on it.
\<close>

definition sample_reminder :: "string \<Rightarrow> int option \<Rightarrow> status \<Rightarrow> reminder" where
  "sample_reminder i t st =
     \<lparr> rid = i, title = ''Eye drops'', noteText = ''Two drops'', dateTime = t,
       notificationType = Email, contactInfo = ''a@b.com'', status = st,
       sentAt = None, error = None \<rparr>"

definition sample_store :: "reminder list" where
  "sample_store =
     [sample_reminder ''A'' (Some 5000) Pending, sample_reminder ''B'' (Some 500) Pending,
      sample_reminder ''C'' (Some 7000) Sent]"

definition sample_service :: system where
  "sample_service = NotificationService (Some [117]) (Some [112]) sample_store"

definition at_time :: "int \<Rightarrow> schedule_env" where
  "at_time t = \<lparr> now = t, scheduleJob_answer = JobCreated \<rparr>"

definition sample_dispatch :: "(nat \<Rightarrow> string option) \<Rightarrow> string option \<Rightarrow> dispatch_env" where
  "sample_dispatch answers save_err =
     \<lparr> clock = 5001, findById_error = None, sendMail_answer = answers,
       save_error = save_err \<rparr>"

definition sample_mail :: mail where
  "sample_mail =
     \<lparr> mailTo = ''a@b.com'', subject = ''Reminder: Eye drops'',
       html = (''Eye drops'', ''Two drops'', Some 5000) \<rparr>"

definition sample_A :: "int \<Rightarrow> reminder" where
  "sample_A t = sample_reminder ''A'' (Some t) Pending"

definition scheduled_once :: system where
  "scheduled_once = snd (scheduleReminder (at_time 1000) (sample_A 5000) sample_service)"

definition job_A :: job where
  "job_A = \<lparr> job_id = 0, job_rid = ''A'', job_date = 5000 \<rparr>"

definition restored :: system where
  "restored = restorePendingReminders 1000 None (\<lambda>k. at_time 1001) sample_service"



















section \<open>The table and the jobs agree\<close>

lemma inv_init: "table_inv (NotificationService u p st)"
  by (simp add: table_inv_def NotificationService_def Let_def)

lemma set_delete: "set (AList.delete i al) = {e \<in> set al. fst e \<noteq> i}"
  by (induction al) auto

lemma set_cancel_job: "set (cancel_job h js) = {j \<in> set js. job_id j \<noteq> h}"
  by (auto simp: cancel_job_def)

lemma update_fresh: "map_of al i = None \<Longrightarrow> AList.update i v al = al @ [(i, v)]"
  by (induction al) (auto split: if_splits)

lemma table_invD:
  assumes "table_inv s"
  shows "distinct (map fst (scheduledJobs s))" and "distinct (map job_id (timers s))"
    and "\<And>j. j \<in> set (timers s) \<Longrightarrow> job_id j < nextJob s"
    and "\<And>j. j \<in> set (timers s) \<Longrightarrow> map_of (scheduledJobs s) (job_rid j) = Some (job_id j)"
    and "\<And>i h. (i, h) \<in> set (scheduledJobs s) \<Longrightarrow> \<exists>j \<in> set (timers s). job_rid j = i \<and> job_id j = h"
  using assms unfolding table_inv_def by fastforce+

lemma inv_drop:
  assumes inv: "table_inv s" and ex: "map_of (scheduledJobs s) i = Some h"
  shows "table_inv (s\<lparr>timers := cancel_job h (timers s), scheduledJobs := AList.delete i (scheduledJobs s)\<rparr>)"
proof -
  note D = table_invD[OF inv]
  have a: "distinct (map fst (AList.delete i (scheduledJobs s)))"
    using D(1) by (rule AList.distinct_delete)
  have b: "distinct (map job_id (cancel_job h (timers s)))"
    using D(2) by (simp add: cancel_job_def distinct_map_filter)
  have c: "job_id j < nextJob s \<and> map_of (AList.delete i (scheduledJobs s)) (job_rid j) = Some (job_id j)"
    if "j \<in> set (cancel_job h (timers s))" for j
  proof -
    from that have j: "j \<in> set (timers s)" and ne: "job_id j \<noteq> h" by (auto simp: set_cancel_job)
    from D(4)[OF j] ex ne have "job_rid j \<noteq> i" by auto
    with D(3)[OF j] D(4)[OF j] show ?thesis by simp
  qed
  have d: "\<exists>j \<in> set (cancel_job h (timers s)). job_rid j = fst e \<and> job_id j = snd e"
    if "e \<in> set (AList.delete i (scheduledJobs s))" for e
  proof -
    from that have m: "(fst e, snd e) \<in> set (scheduledJobs s)" and ne: "fst e \<noteq> i" by (auto simp: set_delete)
    from D(5)[OF m] obtain j where j: "j \<in> set (timers s)" "job_rid j = fst e" "job_id j = snd e" by blast
    have "map_of (scheduledJobs s) (fst e) = Some (snd e)" using D(4)[OF j(1)] j by simp
    have "job_id j \<noteq> h"
    proof
      assume "job_id j = h"
      from ex have "(i, h) \<in> set (scheduledJobs s)" by (rule map_of_SomeD)
      from D(5)[OF this] obtain j' where j': "j' \<in> set (timers s)" "job_rid j' = i" "job_id j' = h" by blast
      from D(2) j(1) j'(1) \<open>job_id j = h\<close> j'(3) have "j = j'" by (simp add: distinct_map inj_on_def)
      with j'(2) j(2) ne show False by simp
    qed
    with j show ?thesis by (auto simp: set_cancel_job)
  qed
  show ?thesis unfolding table_inv_def using a b c d by simp
qed

lemma inv_add:
  assumes inv: "table_inv s" and fresh: "map_of (scheduledJobs s) i = None"
  shows "table_inv (s\<lparr>timers := timers s @ [\<lparr>job_id = nextJob s, job_rid = i, job_date = d\<rparr>],
            nextJob := Suc (nextJob s),
            scheduledJobs := AList.update i (nextJob s) (scheduledJobs s)\<rparr>)"
proof -
  note D = table_invD[OF inv]
  have a: "distinct (map fst (AList.update i (nextJob s) (scheduledJobs s)))"
    using D(1) by (rule AList.distinct_update)
  have "nextJob s \<notin> job_id ` set (timers s)" using D(3) by fastforce
  then have b: "distinct (map job_id (timers s @ [\<lparr>job_id = nextJob s, job_rid = i, job_date = d\<rparr>]))"
    using D(2) by simp
  have c: "job_id j < Suc (nextJob s) \<and> map_of (AList.update i (nextJob s) (scheduledJobs s)) (job_rid j) = Some (job_id j)"
    if "j \<in> set (timers s @ [\<lparr>job_id = nextJob s, job_rid = i, job_date = d\<rparr>])" for j
  proof (cases "j \<in> set (timers s)")
    case True
    with D(4)[OF True] fresh have "job_rid j \<noteq> i" by auto
    with D(3)[OF True] D(4)[OF True] show ?thesis by (simp add: AList.update_conv')
  next
    case False
    with that have "j = \<lparr>job_id = nextJob s, job_rid = i, job_date = d\<rparr>" by simp
    then show ?thesis by (simp add: AList.update_conv')
  qed
  have e: "\<exists>j \<in> set (timers s @ [\<lparr>job_id = nextJob s, job_rid = i, job_date = d\<rparr>]). job_rid j = fst e \<and> job_id j = snd e"
    if "e \<in> set (AList.update i (nextJob s) (scheduledJobs s))" for e
  proof -
    from that have "e \<in> set (scheduledJobs s) \<or> e = (i, nextJob s)"
      by (auto simp: update_fresh[OF fresh])
    then show ?thesis
    proof
      assume "e \<in> set (scheduledJobs s)"
      then have "(fst e, snd e) \<in> set (scheduledJobs s)" by simp
      from D(5)[OF this] show ?thesis by auto
    next
      assume "e = (i, nextJob s)"
      then show ?thesis by simp
    qed
  qed
  show ?thesis unfolding table_inv_def using a b c e by simp
qed

lemma delete_None: "map_of al i = None \<Longrightarrow> AList.delete i al = al"
  by (induction al) (auto split: if_splits)

lemma scheduleReminder_cases:
  "scheduleReminder env r s =
     (let reminderIdStr = rid r;
          s1 = (case map_of (scheduledJobs s) reminderIdStr of
                  Some existing \<Rightarrow>
                    s\<lparr>timers := cancel_job existing (timers s),
                      scheduledJobs := AList.delete reminderIdStr (scheduledJobs s)\<rparr>
                | None \<Rightarrow> s)
      in case dateTime r of
           None \<Rightarrow> (Returned False, s1)
         | Some reminderDate \<Rightarrow>
             if reminderDate \<le> now env then (Returned False, s1)
             else if scheduleJob_answer env \<noteq> JobCreated then (Returned False, s1)
             else (Returned True,
                   s1\<lparr>timers := timers s1 @
                         [\<lparr> job_id = nextJob s1, job_rid = reminderIdStr,
                            job_date = reminderDate \<rparr>],
                      nextJob := Suc (nextJob s1),
                      scheduledJobs :=
                        AList.update reminderIdStr (nextJob s1) (scheduledJobs s1)\<rparr>))"
  by (cases "scheduleJob_answer env")
     (simp_all add: scheduleReminder_def schedule_body_def Let_def split: option.splits)

lemma inv_schedule: "table_inv s \<Longrightarrow> table_inv (snd (scheduleReminder env r s))"
proof -
  assume inv: "table_inv s"
  define s1 where "s1 = (case map_of (scheduledJobs s) (rid r) of
                  Some existing \<Rightarrow>
                    s\<lparr>timers := cancel_job existing (timers s),
                      scheduledJobs := AList.delete (rid r) (scheduledJobs s)\<rparr>
                | None \<Rightarrow> s)"
  have i1: "table_inv s1" unfolding s1_def using inv by (auto split: option.splits intro: inv_drop)
  have f1: "map_of (scheduledJobs s1) (rid r) = None"
    unfolding s1_def by (auto split: option.splits simp: AList.delete_conv')
  show ?thesis
    using i1 inv_add[OF i1 f1] unfolding scheduleReminder_cases Let_def s1_def[symmetric]
    by (auto split: option.splits)
qed


lemma save_frame:
  "save env d s = (out, s') \<Longrightarrow>
     scheduledJobs s' = scheduledJobs s \<and> timers s' = timers s \<and> nextJob s' = nextJob s"
  by (auto simp: save_def Let_def split: option.splits)

lemma sendEmail_frame:
  "sendEmailNotification sm a b c d s = (res, s') \<Longrightarrow>
     scheduledJobs s' = scheduledJobs s \<and> timers s' = timers s \<and> nextJob s' = nextJob s
     \<and> store s' = store s"
  by (auto simp: sendEmailNotification_def Let_def split: option.splits prod.splits)

lemma deliver_frame:
  "deliver env r s = (res, s') \<Longrightarrow>
     scheduledJobs s' = scheduledJobs s \<and> timers s' = timers s \<and> nextJob s' = nextJob s
     \<and> store s' = store s"
  by (cases "notificationType r") (auto simp: deliver_def dest: sendEmail_frame)

lemma process_frame:
  assumes "processReminder env r s = (out, s')"
  shows "scheduledJobs s' = scheduledJobs s \<and> timers s' = timers s \<and> nextJob s' = nextJob s"
proof -
  obtain res s1 where 1: "deliver env r s = (res, s1)"
    by (cases "deliver env r s")
  obtain saved s2 where 2: "save env (settle (clock env) res r) s1 = (saved, s2)"
    by (cases "save env (settle (clock env) res r) s1")
  have s': "s' = s2" using assms 1 2 by (simp add: processReminder_def split: outcome.splits)
  show ?thesis using deliver_frame[OF 1] save_frame[OF 2] s' by simp
qed

lemma body_frame:
  assumes "callback_body env i s = (out, s')"
  shows "scheduledJobs s' = scheduledJobs s \<and> timers s' = timers s \<and> nextJob s' = nextJob s"
  using assms by (auto simp: callback_body_def split: option.splits if_splits dest: process_frame)

lemma timer_callback_table:
  "timer_callback env j s = (out, s') \<Longrightarrow>
     out = Returned () \<and> 
     scheduledJobs s' = AList.delete (job_rid j) (scheduledJobs s) \<and>
     timers s' = cancel_job (job_id j) (timers s) \<and> nextJob s' = nextJob s"
  by (auto simp: timer_callback_def Let_def split: prod.splits outcome.splits dest: body_frame)



lemmas sample_defs =
  sample_service_def sample_store_def sample_reminder_def sample_A_def at_time_def
  NotificationService_def strip_spaces_def is_space_def sample_dispatch_def sample_mail_def
  scheduled_once_def job_A_def

section \<open>The retry loop\<close>

lemma send_loop_2:
  "send_loop sm m 2 evs =
     (case sm 3 of None \<Rightarrow> (Some Success, evs @ [SendMail m])
      | Some e3 \<Rightarrow> (Some (Failure e3), evs @ [SendMail m]))"
  by (subst send_loop.simps) (simp add: maxAttempts_def split: option.splits del: One_nat_def)

lemma send_loop_1:
  "send_loop sm m 1 evs =
     (case sm 2 of None \<Rightarrow> (Some Success, evs @ [SendMail m])
      | Some e2 \<Rightarrow> send_loop sm m 2 (evs @ [SendMail m, Sleep 1400]))"
  by (subst send_loop.simps) (simp add: maxAttempts_def split: option.splits del: One_nat_def)

lemma send_loop_0:
  "send_loop sm m 0 evs =
     (case sm 1 of None \<Rightarrow> (Some Success, evs @ [SendMail m])
      | Some e1 \<Rightarrow> send_loop sm m 1 (evs @ [SendMail m, Sleep 700]))"
  by (subst send_loop.simps) (simp add: maxAttempts_def split: option.splits del: One_nat_def)

lemma sendEmail_result:
  assumes "emailTransporter s = Some tr"
    and "m = \<lparr> mailTo = email, subject = ''Reminder: '' @ ttl, html = (ttl, nt, dt) \<rparr>"
  shows "sendEmailNotification sm email ttl nt dt s =
     (case sm 1 of
        None \<Rightarrow> (Some Success, s\<lparr>effects := effects s @ [SendMail m]\<rparr>)
      | Some e1 \<Rightarrow>
          (case sm 2 of
             None \<Rightarrow> (Some Success, s\<lparr>effects := effects s @ [SendMail m, Sleep 700, SendMail m]\<rparr>)
           | Some e2 \<Rightarrow>
               (case sm 3 of
                  None \<Rightarrow>
                    (Some Success,
                     s\<lparr>effects := effects s @
                        [SendMail m, Sleep 700, SendMail m, Sleep 1400, SendMail m]\<rparr>)
                | Some e3 \<Rightarrow>
                    (Some (Failure e3),
                     s\<lparr>effects := effects s @
                        [SendMail m, Sleep 700, SendMail m, Sleep 1400, SendMail m]\<rparr>))))"
  using assms
  by (simp add: sendEmailNotification_def send_loop_0 send_loop_1 send_loop_2 Let_def
      split: option.splits del: One_nat_def)

lemma sendEmail_bound:
  assumes tr: "emailTransporter s = Some tr"
    and m: "m = \<lparr> mailTo = email, subject = ''Reminder: '' @ ttl, html = (ttl, nt, dt) \<rparr>"
  shows "fst (sendEmailNotification sm email ttl nt dt s) \<noteq> None \<and>
         (\<exists>evs. snd (sendEmailNotification sm email ttl nt dt s) = s\<lparr>effects := effects s @ evs\<rparr> \<and>
            (evs = [SendMail m] \<or> evs = [SendMail m, Sleep 700, SendMail m] \<or>
             evs = [SendMail m, Sleep 700, SendMail m, Sleep 1400, SendMail m]))"
  unfolding sendEmail_result[OF tr m]
  by (cases "sm 1"; cases "sm 2"; cases "sm 3"; simp del: One_nat_def; blast)

text \<open>
  Claim C4. With a transporter configured, \<open>sendEmailNotification\<close> always returns a
  result, after one, two or three calls of \<open>sendMail\<close>: it returns success after the
  first call that resolves and makes no further call; after a failed first call it
  sleeps 700 ms, after a failed second call 1400 ms; when all three calls fail the
  result is a failure with the third call's error.
\<close>

theorem retry_envelope:
  assumes "emailTransporter s = Some tr"
    and "m = \<lparr> mailTo = email, subject = ''Reminder: '' @ ttl, html = (ttl, nt, dt) \<rparr>"
  shows "fst (sendEmailNotification sm email ttl nt dt s) \<noteq> None \<and>
         (\<exists>evs. snd (sendEmailNotification sm email ttl nt dt s) =
                  s\<lparr>effects := effects s @ evs\<rparr> \<and>
            (evs = [SendMail m] \<or> evs = [SendMail m, Sleep 700, SendMail m] \<or>
             evs = [SendMail m, Sleep 700, SendMail m, Sleep 1400, SendMail m])) \<and>
         (sm 1 = None \<longrightarrow>
            sendEmailNotification sm email ttl nt dt s =
              (Some Success, s\<lparr>effects := effects s @ [SendMail m]\<rparr>)) \<and>
         (sm 1 = Some e1 \<and> sm 2 = None \<longrightarrow>
            sendEmailNotification sm email ttl nt dt s =
              (Some Success, s\<lparr>effects := effects s @ [SendMail m, Sleep 700, SendMail m]\<rparr>)) \<and>
         (sm 1 = Some e1 \<and> sm 2 = Some e2 \<and> sm 3 = None \<longrightarrow>
            sendEmailNotification sm email ttl nt dt s =
              (Some Success,
               s\<lparr>effects := effects s @
                    [SendMail m, Sleep 700, SendMail m, Sleep 1400, SendMail m]\<rparr>)) \<and>
         (sm 1 = Some e1 \<and> sm 2 = Some e2 \<and> sm 3 = Some e3 \<longrightarrow>
            sendEmailNotification sm email ttl nt dt s =
              (Some (Failure e3),
               s\<lparr>effects := effects s @
                    [SendMail m, Sleep 700, SendMail m, Sleep 1400, SendMail m]\<rparr>))"
  using sendEmail_bound[OF assms, of sm]
  by (simp add: sendEmail_result[OF assms] del: One_nat_def)

theorem retry_envelope_witness:
  "emailTransporter sample_service = Some ([117], [112]) \<and>
   sendEmailNotification (\<lambda>k. None) ''a@b.com'' ''Eye drops'' ''Two drops'' (Some 5000)
       sample_service =
     (Some Success, sample_service\<lparr>effects := [SendMail sample_mail]\<rparr>) \<and>
   sendEmailNotification (\<lambda>k. if k = 1 then Some ''first'' else None) ''a@b.com''
       ''Eye drops'' ''Two drops'' (Some 5000) sample_service =
     (Some Success,
      sample_service\<lparr>effects := [SendMail sample_mail, Sleep 700, SendMail sample_mail]\<rparr>) \<and>
   sendEmailNotification (\<lambda>k. if k = 1 then Some ''first'' else if k = 2 then Some ''second''
         else None) ''a@b.com'' ''Eye drops'' ''Two drops'' (Some 5000) sample_service =
     (Some Success,
      sample_service\<lparr>effects := [SendMail sample_mail, Sleep 700, SendMail sample_mail,
                                  Sleep 1400, SendMail sample_mail]\<rparr>) \<and>
   sendEmailNotification (\<lambda>k. if k = 1 then Some ''first'' else if k = 2 then Some ''second''
         else Some ''third'') ''a@b.com'' ''Eye drops'' ''Two drops'' (Some 5000)
       sample_service =
     (Some (Failure ''third''),
      sample_service\<lparr>effects := [SendMail sample_mail, Sleep 700, SendMail sample_mail,
                                  Sleep 1400, SendMail sample_mail]\<rparr>)"
proof -
  have tr: "emailTransporter sample_service = Some ([117], [112])"
    by (simp add: sample_defs)
  have m: "sample_mail =
      \<lparr> mailTo = ''a@b.com'', subject = ''Reminder: '' @ ''Eye drops'',
        html = (''Eye drops'', ''Two drops'', Some 5000) \<rparr>"
    by (simp add: sample_mail_def)
  have e: "effects sample_service = []"
    by (simp add: sample_defs)
  show ?thesis
    using tr
      retry_envelope[OF tr m, of "\<lambda>k. None"]
      retry_envelope[OF tr m, of "\<lambda>k. if k = 1 then Some ''first'' else None" "''first''"]
      retry_envelope[OF tr m, of "\<lambda>k. if k = 1 then Some ''first'' else if k = 2
         then Some ''second'' else None" "''first''" "''second''"]
      retry_envelope[OF tr m, of "\<lambda>k. if k = 1 then Some ''first'' else if k = 2
         then Some ''second'' else Some ''third''" "''first''" "''second''" "''third''"]
    by (simp add: e)
qed

text \<open>
  Claim C8. The constructor leaves the transporter unset exactly when the user is unset
  or empty, or the password is unset or nothing but white space. With the transporter
  unset, \<open>sendEmailNotification\<close> returns the failure "Transporter not configured" and
  leaves the state as it was: no \<open>sendMail\<close> call and no sleep happen. A dispatch of an
  email reminder then has one effect only, the save of the document as failed with that
  error.
\<close>

theorem no_transporter_fails_fast:
  "(emailTransporter (NotificationService u p st) = None) =
     (u = None \<or> u = Some [] \<or> p = None \<or> (\<exists>q. p = Some q \<and> list_all is_space q)) \<and>
   (emailTransporter s = None \<longrightarrow>
      sendEmailNotification sm email ttl nt dt s =
        (Some (Failure ''Transporter not configured''), s)) \<and>
   (emailTransporter s = None \<and> notificationType r = Email \<longrightarrow>
      effects (snd (processReminder env r s)) =
        effects s @ [Save (r\<lparr>status := Failed, error := Some ''Transporter not configured''\<rparr>)])"
proof -
  have a: "(emailTransporter (NotificationService u p st) = None) =
     (u = None \<or> u = Some [] \<or> p = None \<or> (\<exists>q. p = Some q \<and> list_all is_space q))"
    by (auto simp: NotificationService_def Let_def strip_spaces_def filter_empty_conv list_all_iff
        split: option.splits)
  have b: "sendEmailNotification sm email ttl nt dt s =
        (Some (Failure ''Transporter not configured''), s)" if "emailTransporter s = None" for sm email ttl nt dt
    using that by (simp add: sendEmailNotification_def)
  have c: "effects (snd (processReminder env r s)) =
        effects s @ [Save (r\<lparr>status := Failed, error := Some ''Transporter not configured''\<rparr>)]"
    if "emailTransporter s = None" "notificationType r = Email"
    using that
    by (simp add: processReminder_def deliver_def b save_def settle_def error_of_def Let_def
        split: option.splits outcome.splits)
  show ?thesis using a b c by blast
qed

theorem no_transporter_fails_fast_witness:
  "emailTransporter (NotificationService (Some [117]) (Some [32, 9]) sample_store) = None \<and>
   notificationType (sample_A 5000) = Email \<and>
   sendEmailNotification (\<lambda>k. None) ''a@b.com'' ''Eye drops'' ''Two drops'' (Some 5000)
       (NotificationService (Some [117]) (Some [32, 9]) sample_store) =
     (Some (Failure ''Transporter not configured''),
      NotificationService (Some [117]) (Some [32, 9]) sample_store) \<and>
   effects (snd (processReminder (sample_dispatch (\<lambda>k. None) None) (sample_A 5000)
       (NotificationService (Some [117]) (Some [32, 9]) sample_store))) =
     [Save ((sample_A 5000)\<lparr>status := Failed, error := Some ''Transporter not configured''\<rparr>)]"
  using no_transporter_fails_fast[of "Some [117]" "Some [32, 9]" sample_store
      "NotificationService (Some [117]) (Some [32, 9]) sample_store" "\<lambda>k. None" "''a@b.com''"
      "''Eye drops''" "''Two drops''" "Some 5000" "sample_A 5000"
      "sample_dispatch (\<lambda>k. None) None"]
  by (simp add: sample_defs Let_def)

section \<open>Rejected reminders\<close>

text \<open>
  Claim C6. For a reminder whose date is the clock's time or earlier, \<open>scheduleReminder\<close>
  returns \<open>false\<close>; afterwards the table has no entry for the reminder's id, no job has
  been added to those waiting to fire, and no Job object has been made.
\<close>

theorem scheduleReminder_rejects_past:
  assumes "dateTime r = Some t" and "t \<le> now env"
  shows "fst (scheduleReminder env r s) = Returned False \<and>
         map_of (scheduledJobs (snd (scheduleReminder env r s))) (rid r) = None \<and>
         rid r \<notin> fst ` set (scheduledJobs (snd (scheduleReminder env r s))) \<and>
         set (timers (snd (scheduleReminder env r s))) \<subseteq> set (timers s) \<and>
         nextJob (snd (scheduleReminder env r s)) = nextJob s"
  using assms
  by (auto simp: scheduleReminder_cases Let_def cancel_job_def AList.delete_conv'
      AList.delete_notin_dom map_of_eq_None_iff split: option.splits)

theorem scheduleReminder_rejects_past_witness:
  "dateTime (sample_A 1000) = Some 1000 \<and> 1000 \<le> now (at_time 1000) \<and>
   fst (scheduleReminder (at_time 1000) (sample_A 1000) sample_service) = Returned False \<and>
   map_of (scheduledJobs (snd (scheduleReminder (at_time 1000) (sample_A 1000) sample_service)))
     ''A'' = None \<and>
   timers (snd (scheduleReminder (at_time 1000) (sample_A 1000) sample_service)) = []"
  using scheduleReminder_rejects_past[of "sample_A 1000" 1000 "at_time 1000" sample_service]
  by (simp add: sample_defs)

text \<open>
  Claim C10. For a reminder whose date is not a valid timestamp, \<open>scheduleReminder\<close>
  returns \<open>false\<close> (it has no exceptional exit); afterwards the table has no entry for
  the reminder's id, no job has been added to those waiting to fire, and no Job object
  has been made.
\<close>

theorem scheduleReminder_rejects_invalid_date:
  assumes "dateTime r = None"
  shows "fst (scheduleReminder env r s) = Returned False \<and>
         map_of (scheduledJobs (snd (scheduleReminder env r s))) (rid r) = None \<and>
         rid r \<notin> fst ` set (scheduledJobs (snd (scheduleReminder env r s))) \<and>
         set (timers (snd (scheduleReminder env r s))) \<subseteq> set (timers s) \<and>
         nextJob (snd (scheduleReminder env r s)) = nextJob s"
  using assms
  by (auto simp: scheduleReminder_cases Let_def cancel_job_def AList.delete_conv'
      AList.delete_notin_dom map_of_eq_None_iff split: option.splits)

theorem scheduleReminder_rejects_invalid_date_witness:
  "dateTime (sample_reminder ''A'' None Pending) = None \<and>
   fst (scheduleReminder (at_time 1000) (sample_reminder ''A'' None Pending) scheduled_once)
     = Returned False \<and>
   scheduledJobs (snd (scheduleReminder (at_time 1000) (sample_reminder ''A'' None Pending)
     scheduled_once)) = [] \<and>
   timers (snd (scheduleReminder (at_time 1000) (sample_reminder ''A'' None Pending)
     scheduled_once)) = []"
  using scheduleReminder_rejects_invalid_date[of "sample_reminder ''A'' None Pending"
      "at_time 1000" scheduled_once]
  by (simp add: scheduleReminder_cases sample_defs Let_def cancel_job_def)

section \<open>The dispatch\<close>

lemma deliver_result_timers: "fst (deliver env d (s\<lparr>timers := x\<rparr>)) = fst (deliver env d s)"
  by (cases "notificationType d")
     (auto simp: deliver_def sendEmailNotification_def Let_def split: option.splits prod.splits)

lemma deliver_store: "store (snd (deliver env d s)) = store s"
  using deliver_frame[of env d s] by (cases "deliver env d s") auto

lemma process_store:
  "store (snd (processReminder env d s)) =
     (if save_error env = None \<and> findById (rid d) (store s) \<noteq> None
      then replace_doc (settle (clock env) (fst (deliver env d s)) d) (store s)
      else store s)"
proof -
  obtain res s1 where 1: "deliver env d s = (res, s1)" by (cases "deliver env d s")
  have st: "store s1 = store s" using deliver_store[of env d s] 1 by simp
  have rid: "rid (settle (clock env) res d) = rid d" by (simp add: settle_def)
  show ?thesis
    by (auto simp: processReminder_def 1 save_def Let_def st rid
        split: option.splits outcome.splits prod.splits)
qed

lemma callback_snd:
  "snd (timer_callback env j s) =
     (snd (callback_body env (job_rid j) (s\<lparr>timers := cancel_job (job_id j) (timers s)\<rparr>)))
       \<lparr>scheduledJobs := AList.delete (job_rid j)
          (scheduledJobs (snd (callback_body env (job_rid j)
             (s\<lparr>timers := cancel_job (job_id j) (timers s)\<rparr>))))\<rparr>"
  by (simp add: timer_callback_def Let_def split: prod.splits)

lemma body_store:
  "store (snd (callback_body env i s)) =
     (case findById i (store s) of
        None \<Rightarrow> store s
      | Some d \<Rightarrow>
          if findById_error env = None \<and> status d = Pending \<and> save_error env = None
          then replace_doc (settle (clock env) (fst (deliver env d s)) d) (store s)
          else store s)"
proof -
  have f: "findById i (store s) = Some d \<Longrightarrow> rid d = i" for d
    by (auto simp: findById_def find_Some_iff)
  show ?thesis
    by (auto simp: callback_body_def process_store f split: option.splits)
qed

lemma callback_store:
  "store (snd (timer_callback env j s)) =
     (case findById (job_rid j) (store s) of
        None \<Rightarrow> store s
      | Some d \<Rightarrow>
          if findById_error env = None \<and> status d = Pending \<and> save_error env = None
          then replace_doc (settle (clock env) (fst (deliver env d s)) d) (store s)
          else store s)"
  by (simp add: callback_snd body_store deliver_result_timers split: option.splits)

lemma callback_returns: "fst (timer_callback env j s) = Returned ()"
  by (simp add: timer_callback_def Let_def split: prod.splits outcome.splits)

lemma callback_effects_abort:
  assumes "findById (job_rid j) (store s) = None \<or>
           (\<exists>d. findById (job_rid j) (store s) = Some d \<and> status d \<noteq> Pending)"
  shows "effects (snd (timer_callback env j s)) = effects s"
  using assms
  by (auto simp: timer_callback_def callback_body_def Let_def split: option.splits prod.splits)


text \<open>
  Claim C3. When a job fires and the collection has no document of the reminder's id,
  or has one whose status is not pending, the callback returns normally with no effect:
  no \<open>sendMail\<close> call, no sleep and no \<open>save()\<close> happen, and the collection is as it was.
\<close>

theorem dispatch_aborts_silently:
  assumes "findById (job_rid j) (store s) = None \<or>
           (\<exists>d. findById (job_rid j) (store s) = Some d \<and> status d \<noteq> Pending)"
  shows "fst (timer_callback env j s) = Returned () \<and>
         effects (snd (timer_callback env j s)) = effects s \<and>
         store (snd (timer_callback env j s)) = store s"
  using assms callback_effects_abort[OF assms] callback_returns[of env j s]
  by (auto simp: callback_store)

theorem dispatch_aborts_silently_witness:
  "findById ''C'' (store sample_service) = Some (sample_reminder ''C'' (Some 7000) Sent) \<and>
   findById ''Z'' (store sample_service) = None \<and>
   timer_callback (sample_dispatch (\<lambda>k. None) None)
       \<lparr>job_id = 0, job_rid = ''C'', job_date = 7000\<rparr> sample_service =
     (Returned (), sample_service) \<and>
   timer_callback (sample_dispatch (\<lambda>k. None) None)
       \<lparr>job_id = 0, job_rid = ''Z'', job_date = 7000\<rparr> sample_service =
     (Returned (), sample_service)"
  using dispatch_aborts_silently[of "\<lparr>job_id = 0, job_rid = ''C'', job_date = 7000\<rparr>"
      sample_service "sample_dispatch (\<lambda>k. None) None"]
    dispatch_aborts_silently[of "\<lparr>job_id = 0, job_rid = ''Z'', job_date = 7000\<rparr>"
      sample_service "sample_dispatch (\<lambda>k. None) None"]
  by (simp add: sample_defs findById_def timer_callback_def callback_body_def Let_def cancel_job_def)

text \<open>
  Claim C9. Whatever the dispatch meets (any answers of \<open>sendMail\<close>, \<open>findById\<close> or
  \<open>save()\<close> rejecting or not), the callback returns normally, the table afterwards is
  the table before without the entry of the reminder's id, and the job is no longer
  waiting to fire. When \<open>findById\<close> or \<open>save()\<close> rejects the collection is as it was.
\<close>

theorem dispatch_always_clears_entry:
  "fst (timer_callback env j s) = Returned () \<and>
   scheduledJobs (snd (timer_callback env j s)) = AList.delete (job_rid j) (scheduledJobs s) \<and>
   map_of (scheduledJobs (snd (timer_callback env j s))) (job_rid j) = None \<and>
   job_rid j \<notin> fst ` set (scheduledJobs (snd (timer_callback env j s))) \<and>
   j \<notin> set (timers (snd (timer_callback env j s))) \<and>
   (findById_error env \<noteq> None \<or> save_error env \<noteq> None \<longrightarrow>
      store (snd (timer_callback env j s)) = store s)"
proof -
  obtain out s' where c: "timer_callback env j s = (out, s')" by (cases "timer_callback env j s")
  note T = timer_callback_table[OF c]
  have "store s' = store s" if "findById_error env \<noteq> None \<or> save_error env \<noteq> None"
    using that callback_store[of env j s] c by (auto split: option.splits)
  then show ?thesis using T c
    by (auto simp: AList.delete_conv' AList.delete_notin_dom set_cancel_job)
qed

theorem dispatch_always_clears_entry_witness:
  "scheduledJobs scheduled_once = [(''A'', 0)] \<and> timers scheduled_once = [job_A] \<and>
   timer_callback (sample_dispatch (\<lambda>k. None) (Some ''disk full'')) job_A scheduled_once =
     (Returned (),
      sample_service\<lparr>nextJob := 1,
        effects := [SendMail sample_mail,
                    Save ((sample_A 5000)\<lparr>status := Sent, sentAt := Some 5001\<rparr>)]\<rparr>)"
  using dispatch_always_clears_entry[of "sample_dispatch (\<lambda>k. None) (Some ''disk full'')" job_A
      scheduled_once]
  by (simp add: sample_defs scheduleReminder_cases timer_callback_def callback_body_def Let_def
      cancel_job_def findById_def processReminder_def deliver_def sendEmailNotification_def
      send_loop_0 save_def settle_def)

section \<open>Status transitions of the documents\<close>





lemma schedule_store: "store (snd (scheduleReminder env r s)) = store s"
  and schedule_effects: "effects (snd (scheduleReminder env r s)) = effects s"
  by (auto simp: scheduleReminder_cases Let_def split: option.splits)

lemma schedule_each_store: "store (schedule_each envs k rs s) = store s"
  and schedule_each_effects: "effects (schedule_each envs k rs s) = effects s"
  by (induction rs arbitrary: s k) (auto simp: schedule_store schedule_effects)

lemma restore_store: "store (restorePendingReminders t fe envs s) = store s"
  by (simp add: restorePendingReminders_def schedule_each_store split: option.splits)


section \<open>A rejected call and the existing entry\<close>

text \<open>
  Claim C7, as stated, fails: the service has scheduled reminder A for 5000 and holds
  its job; a call of \<open>scheduleReminder\<close> at 2000 with A's date changed to 1500 returns
  \<open>false\<close> and leaves the table empty and A's job cancelled, not the table as it was.
\<close>

theorem rejected_schedule_keeps_table_counterexample:
  "reachable scheduled_once \<and>
   dateTime (sample_A 1500) = Some 1500 \<and> 1500 \<le> now (at_time 2000) \<and>
   fst (scheduleReminder (at_time 2000) (sample_A 1500) scheduled_once) = Returned False \<and>
   scheduledJobs scheduled_once = [(''A'', 0)] \<and>
   timers scheduled_once = [job_A] \<and>
   scheduledJobs (snd (scheduleReminder (at_time 2000) (sample_A 1500) scheduled_once)) = [] \<and>
   timers (snd (scheduleReminder (at_time 2000) (sample_A 1500) scheduled_once)) = [] \<and>
   scheduledJobs (snd (scheduleReminder (at_time 2000) (sample_A 1500) scheduled_once)) \<noteq>
     scheduledJobs scheduled_once"
proof -
  have r: "reachable scheduled_once"
    using reach_step[OF reach_init, of "Schedule (at_time 1000) (sample_A 5000)"
        "Some [117]" "Some [112]" sample_store]
    by (simp add: scheduled_once_def sample_service_def)
  show ?thesis using r by (simp add: sample_defs scheduleReminder_cases Let_def cancel_job_def)
qed

text \<open>
  Claim C7, amended. When \<open>scheduleReminder\<close> rejects a reminder because its date is
  not after the clock, it returns \<open>false\<close>; the table afterwards is the table before
  without the entry of the reminder's id (the job of that entry, if there was one, has
  been cancelled), and the entries of all other ids are as they were.
\<close>

theorem rejected_schedule_drops_existing:
  assumes "dateTime r = Some t" and "t \<le> now env"
  shows "fst (scheduleReminder env r s) = Returned False \<and>
         scheduledJobs (snd (scheduleReminder env r s)) =
           AList.delete (rid r) (scheduledJobs s) \<and>
         timers (snd (scheduleReminder env r s)) =
           (case map_of (scheduledJobs s) (rid r) of
              None \<Rightarrow> timers s
            | Some existing \<Rightarrow> cancel_job existing (timers s)) \<and>
         map_of (scheduledJobs (snd (scheduleReminder env r s))) (rid r) = None \<and>
         (i \<noteq> rid r \<longrightarrow>
            map_of (scheduledJobs (snd (scheduleReminder env r s))) i =
              map_of (scheduledJobs s) i)"
  using assms
  by (auto simp: scheduleReminder_cases Let_def AList.delete_conv' delete_None
      split: option.splits)

theorem rejected_schedule_drops_existing_witness:
  "dateTime (sample_A 1500) = Some 1500 \<and> 1500 \<le> now (at_time 2000) \<and>
   map_of (scheduledJobs scheduled_once) ''A'' = Some 0 \<and>
   scheduleReminder (at_time 2000) (sample_A 1500) scheduled_once =
     (Returned False, scheduled_once\<lparr>timers := [], scheduledJobs := []\<rparr>)"
  using rejected_schedule_drops_existing[of "sample_A 1500" 1500 "at_time 2000" scheduled_once
      "''B''"]
  by (simp add: sample_defs scheduleReminder_cases Let_def cancel_job_def)

section \<open>Recovery\<close>

lemma schedule_other_table:
  "i \<noteq> rid r \<Longrightarrow>
     map_of (scheduledJobs (snd (scheduleReminder env r s))) i = map_of (scheduledJobs s) i"
  by (auto simp: scheduleReminder_cases Let_def AList.delete_conv' AList.update_conv'
      split: option.splits)

lemma cancel_other_filter:
  assumes inv: "table_inv s" and ex: "map_of (scheduledJobs s) k = Some h" and ne: "i \<noteq> k"
  shows "filter (\<lambda>j. job_rid j = i) (cancel_job h (timers s)) =
         filter (\<lambda>j. job_rid j = i) (timers s)"
proof -
  have "job_id j \<noteq> h" if "j \<in> set (timers s)" "job_rid j = i" for j
  proof
    assume "job_id j = h"
    from table_invD(5)[OF inv map_of_SomeD[OF ex]] obtain j' where
      j': "j' \<in> set (timers s)" "job_rid j' = k" "job_id j' = h" by blast
    from table_invD(2)[OF inv] that(1) j'(1) \<open>job_id j = h\<close> j'(3) have "j = j'"
      by (simp add: distinct_map inj_on_def)
    with that(2) j'(2) ne show False by simp
  qed
  then show ?thesis unfolding cancel_job_def filter_filter
    by (intro filter_cong) auto
qed

lemma schedule_other_timers:
  assumes inv: "table_inv s" and ne: "i \<noteq> rid r"
  shows "filter (\<lambda>j. job_rid j = i) (timers (snd (scheduleReminder env r s))) =
         filter (\<lambda>j. job_rid j = i) (timers s)"
  using ne cancel_other_filter[OF inv _ ne]
  by (auto simp: scheduleReminder_cases Let_def split: option.splits)

lemma no_entry_no_timer:
  assumes inv: "table_inv s" and "map_of (scheduledJobs s) i = None"
  shows "filter (\<lambda>j. job_rid j = i) (timers s) = []"
  using assms table_invD(4)[OF inv] by (auto simp: filter_empty_conv)

lemma schedule_self:
  assumes inv: "table_inv s" and dt: "dateTime r = Some dt"
  shows "if now env < dt \<and> scheduleJob_answer env = JobCreated
         then map_of (scheduledJobs (snd (scheduleReminder env r s))) (rid r) = Some (nextJob s) \<and>
              filter (\<lambda>j. job_rid j = rid r) (timers (snd (scheduleReminder env r s))) =
                [\<lparr>job_id = nextJob s, job_rid = rid r, job_date = dt\<rparr>]
         else map_of (scheduledJobs (snd (scheduleReminder env r s))) (rid r) = None \<and>
              filter (\<lambda>j. job_rid j = rid r) (timers (snd (scheduleReminder env r s))) = []"
proof -
  define s1 where "s1 = (case map_of (scheduledJobs s) (rid r) of
                  Some existing \<Rightarrow>
                    s\<lparr>timers := cancel_job existing (timers s),
                      scheduledJobs := AList.delete (rid r) (scheduledJobs s)\<rparr>
                | None \<Rightarrow> s)"
  have i1: "table_inv s1" unfolding s1_def using inv by (auto split: option.splits intro: inv_drop)
  have f1: "map_of (scheduledJobs s1) (rid r) = None"
    unfolding s1_def by (auto split: option.splits simp: AList.delete_conv')
  have n1: "nextJob s1 = nextJob s" unfolding s1_def by (auto split: option.splits)
  note e1 = no_entry_no_timer[OF i1 f1]
  show ?thesis
    using dt f1 e1 n1 unfolding scheduleReminder_cases Let_def s1_def[symmetric]
    by (auto simp: AList.update_conv')
qed

lemma schedule_each_other:
  assumes "table_inv s" and "i \<notin> rid ` set rs"
  shows "map_of (scheduledJobs (schedule_each envs k rs s)) i = map_of (scheduledJobs s) i \<and>
         filter (\<lambda>j. job_rid j = i) (timers (schedule_each envs k rs s)) =
           filter (\<lambda>j. job_rid j = i) (timers s)"
  using assms
proof (induction rs arbitrary: s k)
  case Nil
  then show ?case by simp
next
  case (Cons r rs)
  from Cons.prems have ne: "i \<noteq> rid r" and rest: "i \<notin> rid ` set rs" by auto
  have inv': "table_inv (snd (scheduleReminder (envs k) r s))"
    using Cons.prems(1) by (rule inv_schedule)
  show ?case
    using Cons.IH[OF inv' rest, of "Suc k"] schedule_other_table[OF ne, of "envs k" s]
      schedule_other_timers[OF Cons.prems(1) ne, of "envs k"]
    by simp
qed

lemma schedule_each_self:
  assumes "table_inv s" and "distinct (map rid rs)" and "n < length rs"
    and "dateTime (rs ! n) = Some dt"
  shows "if now (envs (k + n)) < dt \<and> scheduleJob_answer (envs (k + n)) = JobCreated
         then \<exists>h. map_of (scheduledJobs (schedule_each envs k rs s)) (rid (rs ! n)) = Some h \<and>
                filter (\<lambda>j. job_rid j = rid (rs ! n)) (timers (schedule_each envs k rs s)) =
                  [\<lparr>job_id = h, job_rid = rid (rs ! n), job_date = dt\<rparr>]
         else map_of (scheduledJobs (schedule_each envs k rs s)) (rid (rs ! n)) = None \<and>
              filter (\<lambda>j. job_rid j = rid (rs ! n)) (timers (schedule_each envs k rs s)) = []"
  using assms
proof (induction rs arbitrary: s k n)
  case Nil
  then show ?case by simp
next
  case (Cons r rs)
  have inv': "table_inv (snd (scheduleReminder (envs k) r s))"
    using Cons.prems(1) by (rule inv_schedule)
  show ?case
  proof (cases n)
    case 0
    with Cons.prems have dt: "dateTime r = Some dt" and fresh: "rid r \<notin> rid ` set rs" by auto
    show ?thesis
      using schedule_self[OF Cons.prems(1) dt, of "envs k"]
        schedule_each_other[OF inv' fresh, of envs "Suc k"] 0
      by (auto split: if_splits)
  next
    case (Suc m)
    with Cons.prems have d: "distinct (map rid rs)" and m: "m < length rs"
      and dt: "dateTime (rs ! m) = Some dt" by auto
    show ?thesis using Cons.IH[OF inv' d m dt, of "Suc k"] Suc by simp
  qed
qed

lemma find_pending_set:
  "set (find_pending t st) =
     {d \<in> set st. status d = Pending \<and> (\<exists>dt. dateTime d = Some dt \<and> t < dt)}"
  by (auto simp: find_pending_def split: option.splits)

lemma distinct_find_pending: "distinct (map rid st) \<Longrightarrow> distinct (map rid (find_pending t st))"
  by (simp add: find_pending_def distinct_map_filter)

text \<open>
  Claim C2. Let the query of \<open>restorePendingReminders\<close> succeed at time \<open>t\<close>, on a
  state where the table and node-schedule agree (as they do when the process starts)
  and whose collection has no id twice. The routine leaves the collection
  as it was. The documents it passes to \<open>scheduleReminder\<close> are those that are pending
  with a date after \<open>t\<close>. A document that is not (pending with a date of \<open>t\<close> or before,
  or with no valid date, or sent, or failed) keeps the table entry and the waiting jobs
  it had before the call, none when it had none. The \<open>n\<close>-th document passed has
  afterwards an entry, and exactly one job waiting to fire at its date, when its call of
  \<open>scheduleReminder\<close> met a clock before its date and got a Job; otherwise it has
  neither.
\<close>

theorem restore_schedules_pending_future:
  assumes "table_inv s" and "distinct (map rid (store s))"
  shows "store (restorePendingReminders t None envs s) = store s \<and>
         set (find_pending t (store s)) =
           {d \<in> set (store s). status d = Pending \<and> (\<exists>dt. dateTime d = Some dt \<and> t < dt)} \<and>
         (d \<in> set (store s) \<and> \<not> (status d = Pending \<and> (\<exists>dt. dateTime d = Some dt \<and> t < dt)) \<longrightarrow>
            map_of (scheduledJobs (restorePendingReminders t None envs s)) (rid d) =
              map_of (scheduledJobs s) (rid d) \<and>
            filter (\<lambda>j. job_rid j = rid d) (timers (restorePendingReminders t None envs s)) =
              filter (\<lambda>j. job_rid j = rid d) (timers s)) \<and>
         (n < length (find_pending t (store s)) \<and> find_pending t (store s) ! n = d \<and>
          dateTime d = Some dt \<longrightarrow>
            (if now (envs n) < dt \<and> scheduleJob_answer (envs n) = JobCreated
             then \<exists>h. map_of (scheduledJobs (restorePendingReminders t None envs s)) (rid d) =
                         Some h \<and>
                    filter (\<lambda>j. job_rid j = rid d)
                        (timers (restorePendingReminders t None envs s)) =
                      [\<lparr>job_id = h, job_rid = rid d, job_date = dt\<rparr>]
             else map_of (scheduledJobs (restorePendingReminders t None envs s)) (rid d) = None \<and>
                  filter (\<lambda>j. job_rid j = rid d)
                      (timers (restorePendingReminders t None envs s)) = []))"
proof -
  have inv: "table_inv s" using assms(1) .
  have r: "restorePendingReminders t None envs s = schedule_each envs 0 (find_pending t (store s)) s"
    by (simp add: restorePendingReminders_def)
  have a: "store (restorePendingReminders t None envs s) = store s" by (rule restore_store)
  have b: "map_of (scheduledJobs (restorePendingReminders t None envs s)) (rid d) =
              map_of (scheduledJobs s) (rid d) \<and>
            filter (\<lambda>j. job_rid j = rid d) (timers (restorePendingReminders t None envs s)) =
              filter (\<lambda>j. job_rid j = rid d) (timers s)"
    if d: "d \<in> set (store s)"
      and un: "\<not> (status d = Pending \<and> (\<exists>dt. dateTime d = Some dt \<and> t < dt))"
  proof -
    have "rid d \<notin> rid ` set (find_pending t (store s))"
    proof
      assume "rid d \<in> rid ` set (find_pending t (store s))"
      then obtain d' where d': "d' \<in> set (find_pending t (store s))" "rid d' = rid d" by auto
      then have "d' \<in> set (store s)" by (simp add: find_pending_set)
      with assms(2) d d'(2) have "d' = d" by (simp add: distinct_map inj_on_def)
      with d'(1) un show False by (simp add: find_pending_set)
    qed
    from schedule_each_other[OF inv this, of envs 0] show ?thesis by (simp add: r)
  qed
  have c: "if now (envs n) < dt \<and> scheduleJob_answer (envs n) = JobCreated
             then \<exists>h. map_of (scheduledJobs (restorePendingReminders t None envs s)) (rid d) =
                         Some h \<and>
                    filter (\<lambda>j. job_rid j = rid d)
                        (timers (restorePendingReminders t None envs s)) =
                      [\<lparr>job_id = h, job_rid = rid d, job_date = dt\<rparr>]
             else map_of (scheduledJobs (restorePendingReminders t None envs s)) (rid d) = None \<and>
                  filter (\<lambda>j. job_rid j = rid d)
                      (timers (restorePendingReminders t None envs s)) = []"
    if n: "n < length (find_pending t (store s))" and e: "find_pending t (store s) ! n = d"
      and dt: "dateTime d = Some dt"
  proof -
    have dt': "dateTime (find_pending t (store s) ! n) = Some dt" using e dt by simp
    show ?thesis
      using schedule_each_self[OF inv distinct_find_pending[OF assms(2), of t] n dt', of envs 0]
      unfolding r e by simp
  qed
  show ?thesis using a b c find_pending_set[of t "store s"] by blast
qed

theorem restore_schedules_pending_future_witness:
  "table_inv sample_service \<and> distinct (map rid (store sample_service)) \<and>
   store restored = sample_store \<and>
   find_pending 1000 (store sample_service) = [sample_A 5000] \<and>
   scheduledJobs restored = [(''A'', 0)] \<and>
   timers restored = [job_A] \<and>
   map_of (scheduledJobs restored) ''B'' = None \<and>
   map_of (scheduledJobs restored) ''C'' = None"
proof -
  have r: "table_inv sample_service" unfolding sample_service_def by (rule inv_init)
  have d: "distinct (map rid (store sample_service))" by (simp add: sample_defs)
  show ?thesis
    using r d
      restore_schedules_pending_future[OF r d, of 1000 "\<lambda>k. at_time 1001"
        "sample_reminder ''B'' (Some 500) Pending"]
      restore_schedules_pending_future[OF r d, of 1000 "\<lambda>k. at_time 1001"
        "sample_reminder ''C'' (Some 7000) Sent"]
      restore_schedules_pending_future[OF r d, of 1000 "\<lambda>k. at_time 1001"
        "sample_A 5000" 0 5000]
    by (simp add: sample_defs restored_def restorePendingReminders_def find_pending_def
        scheduleReminder_cases Let_def)
qed

section \<open>The callback by pieces and as one function\<close>






lemma resume_keeps_running: "running (snd (resume env i ph s)) = running s"
  by (cases ph)
     (simp_all add: begin_save_def begin_attempt_def Let_def
        split: option.splits notificationType.splits)


lemma mail_of_eq:
  "\<lparr> mailTo = contactInfo d, subject = ''Reminder: '' @ title d,
     html = (title d, noteText d, dateTime d) \<rparr> = mail_of d"
  by (simp add: mail_of_def)











section \<open>What every run keeps\<close>

















section \<open>What a calm run keeps\<close>



































section \<open>Sample runs\<close>







section \<open>Status transitions along a run\<close>














section \<open>One job per reminder\<close>

















end
